theory Spec2Isabelle
  imports Complex_Main
begin

section \<open>The realtime console page (src/pages/ConsolePage.vue)\<close>

text \<open>
  A shallow embedding of the script of \<^verbatim>\<open>ConsolePage.vue\<close>: the page's reactive state
  as a record, every handler as a function from the state to the new state, the calls it
  issues to its collaborators (realtime client, wav recorder, wav stream player, decoder,
  fetch, animation frames) as a list in issue order, and its completion as a sum:
  \<open>Inr\<close> when the (async) function returns, \<open>Inl\<close> when it throws or its promise rejects.
  The collaborators are not part of the page; what each of their calls answers is a
  parameter of the handler that makes the call.
\<close>

subsection \<open>JavaScript values and failures\<close>

datatype js_error =
    TypeError
  | Rejected string

type_synonym 'a outcome = "js_error + 'a"

datatype jsval =
    JUndefined
  | JNull
  | JBool bool
  | JNum real
  | JStr string
  | JObj "(string \<times> jsval) list"

text \<open>An object of the page's state (\<open>marker\<close>, \<open>coords\<close>, \<open>memoryKv\<close>): own properties by name.\<close>

type_synonym js_object = "string \<rightharpoonup> jsval"

text \<open>
  Reading a property \<open>v.k\<close>: of \<open>undefined\<close> or \<open>null\<close> it throws a TypeError, of an
  object it gives the property or \<open>undefined\<close>, of another primitive \<open>undefined\<close>.
\<close>

fun js_get :: "jsval \<Rightarrow> string \<Rightarrow> jsval outcome" where
  "js_get JUndefined k = Inl TypeError"
| "js_get JNull k = Inl TypeError"
| "js_get (JObj kvs) k = Inr (case map_of kvs k of None \<Rightarrow> JUndefined | Some v \<Rightarrow> v)"
| "js_get v k = Inr JUndefined"

subsection \<open>The event log\<close>

datatype event_source = Client | Server

text \<open>
  \<^verbatim>\<open>interface RealtimeEvent { time; source; count?; event }\<close>. Of the payload \<open>event\<close>
  the page reads \<open>event.type\<close> and \<open>event.event_id\<close>; \<open>None\<close> is a property that is
  absent (\<open>undefined\<close>).
\<close>

record realtime_event =
  time :: string
  source :: event_source
  count :: "nat option"
  event_type :: "string option"
  event_id :: "string option"

text \<open>\<^verbatim>\<open>lastEvent.count || 0\<close>: an absent count and the count 0 both read as 0.\<close>

definition count_or_zero :: "nat option \<Rightarrow> nat" where
  "count_or_zero c = (case c of None \<Rightarrow> 0 | Some n \<Rightarrow> n)"

text \<open>
  The update function the \<^verbatim>\<open>realtime.event\<close> listener passes to \<open>setRealtimeEvents\<close>
  (lines 403-411):
  \<^verbatim>\<open>
    const lastEvent = current[current.length - 1];
    if (lastEvent?.event.type === realtimeEvent.event.type) {
      lastEvent.count = (lastEvent.count || 0) + 1;
      return current.slice(0, -1).concat(lastEvent);
    } else {
      return current.concat(realtimeEvent);
    }
  \<close>
  On the empty log \<open>lastEvent\<close> is \<open>undefined\<close> and so is \<open>lastEvent?.event.type\<close>; an
  incoming event without a type then passes the test, and the assignment to
  \<open>lastEvent.count\<close> throws.
\<close>

definition realtime_event_update ::
  "realtime_event \<Rightarrow> realtime_event list \<Rightarrow> realtime_event list outcome" where
  "realtime_event_update realtimeEvent current =
     (if current = [] then
        (if event_type realtimeEvent = None then Inl TypeError
         else Inr (current @ [realtimeEvent]))
      else
        (let lastEvent = last current in
         if event_type lastEvent = event_type realtimeEvent
         then Inr (butlast current @
                     [lastEvent\<lparr>count := Some (count_or_zero (count lastEvent) + 1)\<rparr>])
         else Inr (current @ [realtimeEvent])))"

text \<open>An append merged into the last record: the call returns and the log did not grow.\<close>

definition merged :: "realtime_event \<Rightarrow> realtime_event list \<Rightarrow> bool" where
  "merged ev current =
     (case realtime_event_update ev current of
        Inl e \<Rightarrow> False
      | Inr new \<Rightarrow> length new = length current)"

subsection \<open>The page's state\<close>

text \<open>
  A Vue ref is an object whose property \<open>value\<close> holds the content. Like every object the
  ref itself is truthy, whatever it holds.
\<close>

datatype 'a ref = Ref 'a

fun ref_value :: "'a ref \<Rightarrow> 'a" where
  "ref_value (Ref v) = v"

fun truthy_ref :: "'a ref \<Rightarrow> bool" where
  "truthy_ref (Ref v) = True"

text \<open>
  Conversation items are objects of the realtime client, shared by reference between the
  client's conversation, the \<^verbatim>\<open>conversation.updated\<close> event and the page's \<open>items\<close>
  array: an array of items is a list of addresses into a store of item objects.
\<close>

type_synonym addr = nat

datatype item_status = InProgress | Completed | Incomplete

datatype wav_file = WavFile string

record item =
  item_id :: string
  status :: item_status
  formatted_audio :: "int list option"
  formatted_file :: "wav_file option"

type_synonym item_store = "addr \<Rightarrow> item"

text \<open>
  The refs of the script (lines 115-143), each but \<open>isLoaded\<close> by its content, since the
  script reads them through \<open>.value\<close> only. \<open>memoryKv\<close> is not a ref but a reactive object
  (\<^verbatim>\<open>reactive<{ [key: string]: any }>({})\<close>): the field holds its own properties, and
  \<open>memoryKv.value\<close> in the script is its property named \<open>value\<close>.
\<close>

record page =
  startTime :: string
  items :: "addr list"
  realtimeEvents :: "realtime_event list"
  isConnected :: bool
  canPushToTalk :: bool
  isRecording :: bool
  memoryKv :: "string \<rightharpoonup> js_object"
  coords :: "js_object option"
  marker :: "js_object option"
  isLoaded :: "bool ref"

text \<open>\<^verbatim>\<open>{ ...o }\<close>: the own properties of an object, none of \<open>null\<close> or \<open>undefined\<close>.\<close>

definition spread :: "js_object option \<Rightarrow> js_object" where
  "spread ob = (case ob of None \<Rightarrow> Map.empty | Some m \<Rightarrow> m)"

definition default_coords :: js_object where
  "default_coords = [''lat'' \<mapsto> JNum 37.775593, ''lng'' \<mapsto> JNum (- 122.418137)]"

text \<open>The state the script starts with.\<close>

definition initial_page :: "string \<Rightarrow> page" where
  "initial_page t0 =
     \<lparr>startTime = t0, items = [], realtimeEvents = [], isConnected = False,
      canPushToTalk = True, isRecording = False, memoryKv = Map.empty,
      coords = Some default_coords, marker = None, isLoaded = Ref False\<rparr>"

text \<open>Helper methods (lines 173-187).\<close>

definition setMemoryKv :: "(js_object option \<Rightarrow> js_object) \<Rightarrow> page \<Rightarrow> page" where
  "setMemoryKv updateFn st =
     st\<lparr>memoryKv := (memoryKv st)(''value'' \<mapsto> updateFn (memoryKv st ''value''))\<rparr>"

definition setMarker :: "js_object \<Rightarrow> page \<Rightarrow> page" where
  "setMarker newMarker st = st\<lparr>marker := Some (spread (marker st) ++ newMarker)\<rparr>"

definition setCoords :: "js_object \<Rightarrow> page \<Rightarrow> page" where
  "setCoords newCoords st = st\<lparr>coords := Some (spread (coords st) ++ newCoords)\<rparr>"

definition setItems :: "addr list \<Rightarrow> page \<Rightarrow> page" where
  "setItems newItems st = st\<lparr>items := newItems\<rparr>"




text \<open>
  The memory store the \<open>set_memory\<close> tool writes and the page clears on disconnect: the
  object held by the property \<open>value\<close> of \<open>memoryKv\<close>, empty while that property is unset.
\<close>

definition memory_store :: "page \<Rightarrow> js_object" where
  "memory_store st = spread (memoryKv st ''value'')"

subsection \<open>Collaborators\<close>

datatype canvas_id = ClientCanvas | ServerCanvas

text \<open>The calls the page issues, as the trace records them.\<close>

datatype call =
    ClientConnect
  | ClientDisconnect
  | ClientSendUserMessageContent string
  | ClientCancelResponse string int
  | RecorderBegin
  | RecorderRecord
  | RecorderEnd
  | RecorderPause
  | ClientUpdateSession "string option"
  | PlayerConnect
  | PlayerInterrupt
  | PlayerAdd16BitPCM "int list" string
  | Decode "int list" nat nat
  | Fetch jsval jsval
  | ResponseJson
  | NextTick
  | ClearRect canvas_id nat nat
  | DrawBars canvas_id "real list" string
  | RequestAnimationFrame

text \<open>What \<open>wavStreamPlayer.interrupt()\<close> resolves to when it is not \<open>null\<close>.\<close>

record track_sample_offset =
  trackId :: "string option"
  offset :: int

text \<open>
  What the collaborators answer during one run of a handler; no handler calls the same
  method twice. A call that throws, or whose promise rejects, answers \<open>Inl\<close>.
\<close>

record collaborators =
  date_now :: string
  client_getItems :: "addr list"
  client_getTurnDetectionType :: "string option"
  client_connect :: "unit outcome"
  client_disconnect :: "unit outcome"
  client_sendUserMessageContent :: "unit outcome"
  client_cancelResponse :: "unit outcome"
  recorder_begin :: "unit outcome"
  recorder_record :: "unit outcome"
  recorder_end :: "unit outcome"
  player_connect :: "unit outcome"
  player_interrupt :: "track_sample_offset option outcome"
  player_add16BitPCM :: "unit outcome"
  decode :: "wav_file outcome"
  fetch :: "unit outcome"
  response_json :: "jsval outcome"
  recorder_getStatus :: string
  recorder_pause :: "unit outcome"
  client_updateSession :: "unit outcome"
  client_isConnected :: bool

text \<open>
  Collaborators whose every call returns: no session, the recorder ended, nothing
  playing, the lookup answering \<open>{}\<close>.
\<close>

definition all_return :: collaborators where
  "all_return =
     \<lparr>date_now = ''t1'', client_getItems = [], client_getTurnDetectionType = None,
      client_connect = Inr (), client_disconnect = Inr (),
      client_sendUserMessageContent = Inr (), client_cancelResponse = Inr (),
      recorder_begin = Inr (), recorder_record = Inr (), recorder_end = Inr (),
      player_connect = Inr (), player_interrupt = Inr None, player_add16BitPCM = Inr (),
      decode = Inr (WavFile ''blob:0''), fetch = Inr (), response_json = Inr (JObj []),
      recorder_getStatus = ''ended'', recorder_pause = Inr (), client_updateSession = Inr (),
      client_isConnected = False\<rparr>"

text \<open>
  A run of calls one after the other, each awaited: the first that fails ends the
  function with its error, and the calls after it are not issued.
\<close>

fun run_calls :: "(call \<times> unit outcome) list \<Rightarrow> unit outcome \<times> call list" where
  "run_calls [] = (Inr (), [])"
| "run_calls ((c, r) # rest) =
     (case r of
        Inl e \<Rightarrow> (Inl e, [c])
      | Inr u \<Rightarrow> (let (res, cs) = run_calls rest in (res, c # cs)))"

definition ignore_result :: "'a outcome \<Rightarrow> unit outcome" where
  "ignore_result r = (case r of Inl e \<Rightarrow> Inl e | Inr v \<Rightarrow> Inr ())"

subsection \<open>The render loop (lines 263-321, 437-443)\<close>

record canvas =
  width :: nat
  height :: nat
  offsetWidth :: nat
  offsetHeight :: nat
  context2d :: bool

record render_env =
  clientCanvas :: "canvas option"
  serverCanvas :: "canvas option"
  recorder_recording :: bool
  recorder_frequencies :: "real list"
  player_analyser :: bool
  player_frequencies :: "real list"

text \<open>\<^verbatim>\<open>if (!canvas.width || !canvas.height) { canvas.width = canvas.offsetWidth; ... }\<close>\<close>

definition sized :: "canvas \<Rightarrow> canvas" where
  "sized c =
     (if width c = 0 \<or> height c = 0 then c\<lparr>width := offsetWidth c, height := offsetHeight c\<rparr>
      else c)"

definition draw_canvas :: "canvas_id \<Rightarrow> canvas option \<Rightarrow> real list \<Rightarrow> string \<Rightarrow> call list" where
  "draw_canvas cid cv vals color =
     (case cv of
        None \<Rightarrow> []
      | Some c \<Rightarrow>
          (let c' = sized c in
           if context2d c' then [ClearRect cid (width c') (height c'), DrawBars cid vals color]
           else []))"

text \<open>
  One run of \<open>render\<close>. Its test is \<^verbatim>\<open>if (isLoaded)\<close>, on the ref and not on
  \<open>isLoaded.value\<close>; the last statement of the guarded block is
  \<^verbatim>\<open>window.requestAnimationFrame(render)\<close>.
\<close>

definition render :: "render_env \<Rightarrow> page \<Rightarrow> call list" where
  "render env st =
     (if truthy_ref (isLoaded st) then
        [NextTick]
        @ draw_canvas ClientCanvas (clientCanvas env)
            (if recorder_recording env then recorder_frequencies env else [0]) ''#0099ff''
        @ draw_canvas ServerCanvas (serverCanvas env)
            (if player_analyser env then player_frequencies env else [0]) ''#009900''
        @ [RequestAnimationFrame]
      else [])"

text \<open>
  The loop over at most \<open>n\<close> animation frames: a run that requested a frame is followed by
  the next run, a run that requested none ends the loop.
\<close>

fun render_loop :: "nat \<Rightarrow> render_env \<Rightarrow> page \<Rightarrow> call list" where
  "render_loop 0 env st = []"
| "render_loop (Suc n) env st =
     (let cs = render env st in
      cs @ (if RequestAnimationFrame \<in> set cs then render_loop n env st else []))"

text \<open>
  \<open>onMounted\<close> (lines 436-438) and \<open>onUnmounted\<close>:
  \<^verbatim>\<open>isLoaded.value = true; // Start the render loop\<close> and
  \<^verbatim>\<open>isLoaded.value = false; // Stop the render loop\<close>.
\<close>

definition onMounted :: "collaborators \<Rightarrow> page \<Rightarrow> page" where
  "onMounted env st = (setItems (client_getItems env) st)\<lparr>isLoaded := Ref True\<rparr>"

definition onUnmounted :: "page \<Rightarrow> page" where
  "onUnmounted st = st\<lparr>isLoaded := Ref False\<rparr>"

definition frames_requested :: "call list \<Rightarrow> nat" where
  "frames_requested cs = length (filter (\<lambda>c. c = RequestAnimationFrame) cs)"

subsection \<open>Tools (lines 331-399)\<close>

text \<open>
  \<open>set_memory\<close>:
  \<^verbatim>\<open>setMemoryKv((current) => ({ ...current, [key]: value })); return { ok: true };\<close>
\<close>

definition set_memory :: "string \<Rightarrow> jsval \<Rightarrow> page \<Rightarrow> jsval outcome \<times> page" where
  "set_memory key v st =
     (Inr (JObj [(''ok'', JBool True)]),
      setMemoryKv (\<lambda>current. (spread current)(key \<mapsto> v)) st)"

text \<open>\<open>json.a.b\<close>, which throws when \<open>json\<close> or \<open>json.a\<close> is \<open>undefined\<close> or \<open>null\<close>.\<close>

definition js_get2 :: "jsval \<Rightarrow> string \<Rightarrow> string \<Rightarrow> jsval outcome" where
  "js_get2 json a b = (case js_get json a of Inl e \<Rightarrow> Inl e | Inr x \<Rightarrow> js_get x b)"

text \<open>The \<open>temperature\<close> and \<open>wind_speed\<close> objects built from the answer (lines 388-395).\<close>

definition weather_fields :: "jsval \<Rightarrow> (jsval \<times> jsval) outcome" where
  "weather_fields json =
     (case js_get2 json ''current'' ''temperature_2m'' of Inl e \<Rightarrow> Inl e | Inr tv \<Rightarrow>
     (case js_get2 json ''current_units'' ''temperature_2m'' of Inl e \<Rightarrow> Inl e | Inr tu \<Rightarrow>
     (case js_get2 json ''current'' ''wind_speed_10m'' of Inl e \<Rightarrow> Inl e | Inr wv \<Rightarrow>
     (case js_get2 json ''current_units'' ''wind_speed_10m'' of Inl e \<Rightarrow> Inl e | Inr wu \<Rightarrow>
        Inr (JObj [(''value'', tv), (''units'', tu)],
             JObj [(''value'', wv), (''units'', wu)])))))"

definition place :: "jsval \<Rightarrow> jsval \<Rightarrow> jsval \<Rightarrow> js_object" where
  "place lat lng location = [''lat'' \<mapsto> lat, ''lng'' \<mapsto> lng, ''location'' \<mapsto> location]"

text \<open>
  \<open>get_weather\<close>: the marker and the coordinates are set first, then the lookup is
  awaited (\<open>fetch\<close>, then \<open>response.json()\<close>), its answer read, the marker set again and the
  answer returned. Nothing in the handler catches.
\<close>

definition get_weather ::
  "collaborators \<Rightarrow> jsval \<Rightarrow> jsval \<Rightarrow> jsval \<Rightarrow> page \<Rightarrow> jsval outcome \<times> page \<times> call list" where
  "get_weather env lat lng location st =
     (let st1 = setCoords (place lat lng location) (setMarker (place lat lng location) st) in
      (case fetch env of
        Inl e \<Rightarrow> (Inl e, st1, [Fetch lat lng])
      | Inr u \<Rightarrow>
         (case response_json env of
            Inl e \<Rightarrow> (Inl e, st1, [Fetch lat lng, ResponseJson])
          | Inr json \<Rightarrow>
             (case weather_fields json of
                Inl e \<Rightarrow> (Inl e, st1, [Fetch lat lng, ResponseJson])
              | Inr (temperature, wind_speed) \<Rightarrow>
                 (Inr json,
                  setMarker ((place lat lng location)
                               (''temperature'' \<mapsto> temperature, ''wind_speed'' \<mapsto> wind_speed)) st1,
                  [Fetch lat lng, ResponseJson])))))"

subsection \<open>Interruption (lines 416-422, 503-518)\<close>

text \<open>
  \<^verbatim>\<open>if (trackSampleOffset?.trackId)\<close>: the answer is not \<open>null\<close> and its \<open>trackId\<close> is
  truthy, that is neither absent nor the empty string.
\<close>

definition playing_track :: "track_sample_offset option \<Rightarrow> (string \<times> int) option" where
  "playing_track trackSampleOffset =
     (case trackSampleOffset of
        None \<Rightarrow> None
      | Some t \<Rightarrow>
         (case trackId t of
            None \<Rightarrow> None
          | Some tid \<Rightarrow> if tid = [] then None else Some (tid, offset t)))"

definition cancel_step ::
  "collaborators \<Rightarrow> track_sample_offset option \<Rightarrow> (call \<times> unit outcome) list" where
  "cancel_step env trackSampleOffset =
     (case playing_track trackSampleOffset of
        None \<Rightarrow> []
      | Some (tid, off) \<Rightarrow> [(ClientCancelResponse tid off, client_cancelResponse env)])"

text \<open>The \<^verbatim>\<open>conversation.interrupted\<close> listener.\<close>

definition on_conversation_interrupted :: "collaborators \<Rightarrow> unit outcome \<times> call list" where
  "on_conversation_interrupted env =
     (case player_interrupt env of
        Inl e \<Rightarrow> (Inl e, [PlayerInterrupt])
      | Inr trackSampleOffset \<Rightarrow>
         (let (res, cs) = run_calls (cancel_step env trackSampleOffset)
          in (res, PlayerInterrupt # cs)))"

text \<open>\<open>startRecording\<close>: the same interruption, then \<open>wavRecorder.record\<close>.\<close>

definition startRecording :: "collaborators \<Rightarrow> page \<Rightarrow> unit outcome \<times> page \<times> call list" where
  "startRecording env st =
     (let st' = st\<lparr>isRecording := True\<rparr> in
      (case player_interrupt env of
        Inl e \<Rightarrow> (Inl e, st', [PlayerInterrupt])
      | Inr trackSampleOffset \<Rightarrow>
         (let (res, cs) = run_calls (cancel_step env trackSampleOffset
                                      @ [(RecorderRecord, recorder_record env)])
          in (res, st', PlayerInterrupt # cs))))"

text \<open>
  The template offers the push-to-talk button, whose \<open>mousedown\<close> is \<open>startRecording\<close>
  and which is the function's only caller, under
  \<^verbatim>\<open>v-if="isConnected && canPushToTalk"\<close> (lines 662-666); \<open>None\<close> is the button not
  being there to press.
\<close>

definition push_to_talk_offered :: "page \<Rightarrow> bool" where
  "push_to_talk_offered st = (isConnected st \<and> canPushToTalk st)"

definition push_to_talk_mousedown ::
  "collaborators \<Rightarrow> page \<Rightarrow> (unit outcome \<times> page \<times> call list) option" where
  "push_to_talk_mousedown env st =
     (if push_to_talk_offered st then Some (startRecording env st) else None)"

definition cancellations :: "call list \<Rightarrow> call list" where
  "cancellations cs = filter (\<lambda>c. case c of ClientCancelResponse tid off \<Rightarrow> True | _ \<Rightarrow> False) cs"

subsection \<open>Conversation updates (lines 424-434)\<close>

record conversation_update =
  updated_item :: addr
  delta_audio :: "int list option"

text \<open>\<^verbatim>\<open>item.formatted.audio?.length\<close>: the audio is there and not empty.\<close>

definition has_audio :: "item \<Rightarrow> bool" where
  "has_audio it = (case formatted_audio it of None \<Rightarrow> False | Some a \<Rightarrow> a \<noteq> [])"

text \<open>\<^verbatim>\<open>item.status === 'completed' && item.formatted.audio?.length\<close>\<close>

definition decode_due :: "item \<Rightarrow> bool" where
  "decode_due it = (status it = Completed \<and> has_audio it)"

text \<open>The samples of \<open>item.formatted.audio\<close>, passed to the decoder.\<close>

definition item_audio :: "item \<Rightarrow> int list" where
  "item_audio it = (case formatted_audio it of None \<Rightarrow> [] | Some a \<Rightarrow> a)"

text \<open>
  The listener: the client's item list is read, the audio delta (if any) is queued under
  the item's id, a completed item with audio is decoded and the file stored in the item
  object, and the list is assigned to \<open>items\<close>. The listener has no test of
  \<open>item.formatted.file\<close>. When a call fails, the statements after it are not reached.
\<close>

definition on_conversation_updated ::
  "collaborators \<Rightarrow> conversation_update \<Rightarrow> page \<times> item_store
     \<Rightarrow> unit outcome \<times> (page \<times> item_store) \<times> call list" where
  "on_conversation_updated env upd w =
     (let (st, store) = w;
          updatedItems = client_getItems env;
          it = store (updated_item upd);
          queue = (case delta_audio upd of
                     None \<Rightarrow> []
                   | Some a \<Rightarrow> [(PlayerAdd16BitPCM a (item_id it), player_add16BitPCM env)]);
          (res, cs) = run_calls queue
      in (case res of
           Inl e \<Rightarrow> (Inl e, (st, store), cs)
         | Inr u \<Rightarrow>
            (if decode_due it then
               (case decode env of
                  Inl e \<Rightarrow>
                    (Inl e, (st, store), cs @ [Decode (item_audio it) 24000 24000])
                | Inr wavFile \<Rightarrow>
                    (Inr (),
                     (setItems updatedItems st,
                      store(updated_item upd := it\<lparr>formatted_file := Some wavFile\<rparr>)),
                     cs @ [Decode (item_audio it) 24000 24000]))
             else (Inr (), (setItems updatedItems st, store), cs))))"

definition decodes :: "call list \<Rightarrow> nat" where
  "decodes cs = length (filter (\<lambda>c. case c of Decode a r1 r2 \<Rightarrow> True | _ \<Rightarrow> False) cs)"

text \<open>The items the page shows: the objects its \<open>items\<close> array points to.\<close>

definition shown_items :: "page \<times> item_store \<Rightarrow> item list" where
  "shown_items w = map (snd w) (items (fst w))"

subsection \<open>Connecting and disconnecting (lines 445-500)\<close>

definition connectConversation :: "collaborators \<Rightarrow> page \<Rightarrow> unit outcome \<times> page \<times> call list" where
  "connectConversation env st =
     (let st' = st\<lparr>startTime := date_now env, isConnected := True, realtimeEvents := [],
                   items := client_getItems env\<rparr>;
          (res, cs) = run_calls
            ([(RecorderBegin, recorder_begin env),
              (PlayerConnect, player_connect env),
              (ClientConnect, client_connect env),
              (ClientSendUserMessageContent ''Hello!'', client_sendUserMessageContent env)]
             @ (if client_getTurnDetectionType env = Some ''server_vad''
                then [(RecorderRecord, recorder_record env)] else []))
      in (res, st', cs))"

text \<open>
  \<open>disconnectConversation\<close>: six assignments, then \<open>client.disconnect()\<close>,
  \<open>await wavRecorder.end()\<close> and \<open>await wavStreamPlayer.interrupt()\<close>. The three refs the
  calls go through always hold their object, so the tests \<open>if (client)\<close>,
  \<open>if (wavRecorder)\<close> and \<open>if (wavStreamPlayer)\<close> pass.
\<close>

definition disconnectConversation :: "collaborators \<Rightarrow> page \<Rightarrow> unit outcome \<times> page \<times> call list" where
  "disconnectConversation env st =
     (let st' = st\<lparr>isConnected := False, realtimeEvents := [], items := [],
                   memoryKv := (memoryKv st)(''value'' \<mapsto> Map.empty),
                   coords := Some default_coords, marker := None\<rparr>;
          (res, cs) = run_calls
            [(ClientDisconnect, client_disconnect env),
             (RecorderEnd, recorder_end env),
             (PlayerInterrupt, ignore_result (player_interrupt env))]
      in (res, st', cs))"

text \<open>The connect button: \<^verbatim>\<open>isConnected ? disconnectConversation() : connectConversation()\<close>.\<close>

definition connect_button_click :: "collaborators \<Rightarrow> page \<Rightarrow> unit outcome \<times> page \<times> call list" where
  "connect_button_click env st =
     (if isConnected st then disconnectConversation env st else connectConversation env st)"

subsection \<open>Switching turn detection (lines 196-210)\<close>

text \<open>
  \<open>changeTurnEndType\<close>, run by the manual/vad toggle with the value \<open>none\<close> or
  \<open>server_vad\<close>: the recorder is paused when the switch is to \<open>none\<close> while it records,
  the session's \<open>turn_detection\<close> is updated (\<open>null\<close> for \<open>none\<close>, server VAD otherwise),
  recording starts when the switch is to \<open>server_vad\<close> and the client is connected, and
  last \<^verbatim>\<open>canPushToTalk.value = (value === 'none')\<close>, which a failing call before it
  leaves unreached.
\<close>

definition changeTurnEndType ::
  "collaborators \<Rightarrow> string \<Rightarrow> page \<Rightarrow> unit outcome \<times> page \<times> call list" where
  "changeTurnEndType env v st =
     (let (res, cs) = run_calls
            ((if v = ''none'' \<and> recorder_getStatus env = ''recording''
              then [(RecorderPause, recorder_pause env)] else [])
             @ [(ClientUpdateSession (if v = ''none'' then None else Some ''server_vad''),
                 client_updateSession env)]
             @ (if v = ''server_vad'' \<and> client_isConnected env
                then [(RecorderRecord, recorder_record env)] else []))
      in (case res of
            Inl e \<Rightarrow> (Inl e, st, cs)
          | Inr u \<Rightarrow> (Inr (), st\<lparr>canPushToTalk := (v = ''none'')\<rparr>, cs)))"

subsection \<open>Reading a handler's run\<close>

text \<open>A handler's run is its completion, the state it leaves and the calls it issued.\<close>

definition result_of :: "'a \<times> 'b \<times> 'c \<Rightarrow> 'a" where
  "result_of r = fst r"

definition after :: "'a \<times> 'b \<times> 'c \<Rightarrow> 'b" where
  "after r = fst (snd r)"

definition calls_of :: "'a \<times> 'b \<times> 'c \<Rightarrow> 'c" where
  "calls_of r = snd (snd r)"

subsection \<open>Concrete inputs\<close>

text \<open>Two events of one type, one sent by the client and one by the server.\<close>

definition client_x :: realtime_event where
  "client_x = \<lparr>time = ''t1'', source = Client, count = None, event_type = Some ''x'', event_id = None\<rparr>"

definition server_x :: realtime_event where
  "server_x = \<lparr>time = ''t2'', source = Server, count = None, event_type = Some ''x'', event_id = None\<rparr>"

text \<open>A server event of the type \<^verbatim>\<open>response.audio.delta\<close>, as the client library emits it.\<close>

definition audio_delta :: realtime_event where
  "audio_delta = \<lparr>time = ''t1'', source = Server, count = None,
                  event_type = Some ''response.audio.delta'', event_id = None\<rparr>"

text \<open>The player answers that track \<open>t1\<close> is playing at sample 4800.\<close>

definition track_t1 :: track_sample_offset where
  "track_t1 = \<lparr>trackId = Some ''t1'', offset = 4800\<rparr>"

definition playing_t1 :: collaborators where
  "playing_t1 = all_return\<lparr>player_interrupt := Inr (Some track_t1)\<rparr>"

text \<open>Collaborators of which one call fails.\<close>

definition handshake_fails :: collaborators where
  "handshake_fails = all_return\<lparr>client_connect := Inl (Rejected ''handshake'')\<rparr>"

definition recorder_end_fails :: collaborators where
  "recorder_end_fails = all_return\<lparr>recorder_end := Inl (Rejected ''not begun'')\<rparr>"

definition lookup_fails :: collaborators where
  "lookup_fails = all_return\<lparr>fetch := Inl (Rejected ''network'')\<rparr>"

text \<open>The lookup answers, but with an error document that has no \<open>current\<close>.\<close>

definition lookup_answers_error :: collaborators where
  "lookup_answers_error = all_return\<lparr>response_json := Inr (JObj [(''error'', JBool True)])\<rparr>"

text \<open>A connected page in the middle of a push-to-talk turn, with memory and marker set.\<close>

definition talking_page :: page where
  "talking_page =
     \<lparr>startTime = ''t0'', items = [0], realtimeEvents = [audio_delta], isConnected = True,
      canPushToTalk = True, isRecording = True,
      memoryKv = [''value'' \<mapsto> [''city'' \<mapsto> JStr ''SF'']],
      coords = Some (place (JNum 10) (JNum 20) (JStr ''X'')),
      marker = Some (place (JNum 10) (JNum 20) (JStr ''X'')), isLoaded = Ref True\<rparr>"

text \<open>A page without canvases.\<close>

definition no_canvas :: render_env where
  "no_canvas = \<lparr>clientCanvas = None, serverCanvas = None, recorder_recording = False,
                recorder_frequencies = [], player_analyser = False, player_frequencies = []\<rparr>"

text \<open>
  A completed item with audio at address 0, the client listing it, the decoder answering
  a file of the given URL, and an update for that item without an audio delta.
\<close>

definition completed_item :: item where
  "completed_item = \<lparr>item_id = ''item_1'', status = Completed, formatted_audio = Some [1, 2],
                     formatted_file = None\<rparr>"

definition decoding :: "string \<Rightarrow> collaborators" where
  "decoding url = all_return\<lparr>client_getItems := [0], decode := Inr (WavFile url)\<rparr>"

definition update_0 :: conversation_update where
  "update_0 = \<lparr>updated_item = 0, delta_audio = None\<rparr>"

section \<open>Properties\<close>

subsection \<open>The event log\<close>

lemma realtime_event_update_merge:
  assumes "current \<noteq> []" and "event_type (last current) = event_type ev"
  shows "realtime_event_update ev current =
           Inr (butlast current @ [(last current)\<lparr>count := Some (count_or_zero (count (last current)) + 1)\<rparr>])"
  using assms by (simp add: realtime_event_update_def Let_def)

lemma realtime_event_update_append:
  assumes "current = [] \<or> event_type (last current) \<noteq> event_type ev" and "event_type ev \<noteq> None"
  shows "realtime_event_update ev current = Inr (current @ [ev])"
  using assms by (auto simp: realtime_event_update_def Let_def)

lemma merged_iff: "merged ev current \<longleftrightarrow> current \<noteq> [] \<and> event_type (last current) = event_type ev"
  by (auto simp: merged_def realtime_event_update_def Let_def)

text \<open>
  C2, as the code has it: an append is merged into the last record exactly when the log
  is not empty and the new event's type equals the last record's type; the sources are
  not compared. A merge replaces the last record by itself with its count (read as 0
  when unset) plus one and leaves the records before it as they are; any other append
  of an event that has a type adds the event, unchanged, at the end.
\<close>

theorem merge_iff_same_type:
  "(merged ev current \<longleftrightarrow> current \<noteq> [] \<and> event_type (last current) = event_type ev)
   \<and> (merged ev current \<longrightarrow>
        realtime_event_update ev current =
          Inr (butlast current
               @ [(last current)\<lparr>count := Some (count_or_zero (count (last current)) + 1)\<rparr>]))
   \<and> (\<not> merged ev current \<and> event_type ev \<noteq> None \<longrightarrow>
        realtime_event_update ev current = Inr (current @ [ev]))"
  using realtime_event_update_merge [of current ev] realtime_event_update_append [of current ev]
  by (auto simp: merged_iff)

text \<open>
  C2 as stated fails: a server event is merged into a client record of the same type,
  although their sources differ.
\<close>

theorem merge_ignores_source:
  "\<not> (\<forall>ev current. merged ev current \<longleftrightarrow>
         current \<noteq> [] \<and> source (last current) = source ev
         \<and> event_type (last current) = event_type ev)"
proof
  assume a: "\<forall>ev current. merged ev current \<longleftrightarrow>
         current \<noteq> [] \<and> source (last current) = source ev
         \<and> event_type (last current) = event_type ev"
  have "merged server_x [client_x]"
    by (simp add: merged_iff client_x_def server_x_def)
  with a have "source (last [client_x]) = source server_x" by blast
  then show False by (simp add: client_x_def server_x_def)
qed

theorem merge_iff_same_type_witness:
  "merged server_x [client_x]
   \<and> realtime_event_update server_x [client_x] = Inr [client_x\<lparr>count := Some 1\<rparr>]
   \<and> \<not> merged server_x []
   \<and> realtime_event_update server_x [] = Inr [server_x]"
  using merge_iff_same_type [of server_x "[client_x]"] merge_iff_same_type [of server_x "[]"]
  by (simp add: client_x_def server_x_def count_or_zero_def)










subsection \<open>Interruption\<close>

lemma cancellations_simps [simp]:
  "cancellations [] = []"
  "cancellations (ClientCancelResponse tid off # cs) = ClientCancelResponse tid off # cancellations cs"
  "cancellations (PlayerInterrupt # cs) = cancellations cs"
  "cancellations (RecorderRecord # cs) = cancellations cs"
  by (simp_all add: cancellations_def)

text \<open>
  C1: when the player's \<open>interrupt()\<close> answers a playing track (a \<open>trackId\<close> that is
  there and not empty) with its offset, the \<^verbatim>\<open>conversation.interrupted\<close> listener and
  \<open>startRecording\<close> each issue exactly one cancellation, and it carries that track id and
  that offset; when the answer is \<open>null\<close>, or its \<open>trackId\<close> is missing or empty, neither
  issues a cancellation.
\<close>

theorem interrupt_cancels_playing_track:
  "(player_interrupt env = Inr (Some t) \<and> trackId t = Some tid \<and> tid \<noteq> [] \<longrightarrow>
      cancellations (snd (on_conversation_interrupted env)) = [ClientCancelResponse tid (offset t)]
      \<and> cancellations (calls_of (startRecording env st)) = [ClientCancelResponse tid (offset t)])
   \<and> (player_interrupt env = Inr None
        \<or> (player_interrupt env = Inr (Some t) \<and> (trackId t = None \<or> trackId t = Some [])) \<longrightarrow>
      cancellations (snd (on_conversation_interrupted env)) = []
      \<and> cancellations (calls_of (startRecording env st)) = [])"
  by (auto simp: on_conversation_interrupted_def startRecording_def cancel_step_def
      playing_track_def calls_of_def Let_def split: sum.splits prod.splits)

theorem interrupt_cancels_playing_track_witness:
  "cancellations (snd (on_conversation_interrupted playing_t1)) = [ClientCancelResponse ''t1'' 4800]
   \<and> cancellations (calls_of (startRecording playing_t1 talking_page)) = [ClientCancelResponse ''t1'' 4800]
   \<and> cancellations (snd (on_conversation_interrupted all_return)) = []
   \<and> cancellations (calls_of (startRecording all_return talking_page)) = []"
  using interrupt_cancels_playing_track [of playing_t1 track_t1 "''t1''" talking_page]
    interrupt_cancels_playing_track [of all_return track_t1 "''t1''" talking_page]
  by (simp add: playing_t1_def track_t1_def all_return_def)

subsection \<open>Conversation updates\<close>

lemma has_audio_file [simp]: "has_audio (it\<lparr>formatted_file := f\<rparr>) = has_audio it"
  by (simp add: has_audio_def)

lemma on_conversation_updated_eq:
  assumes "player_add16BitPCM env = Inr ()" and "decode env = Inr f"
  shows "on_conversation_updated env upd (st, store) =
     (Inr (),
      (setItems (client_getItems env) st,
       if decode_due (store (updated_item upd))
       then store(updated_item upd := (store (updated_item upd))\<lparr>formatted_file := Some f\<rparr>)
       else store),
      (case delta_audio upd of
         None \<Rightarrow> []
       | Some a \<Rightarrow> [PlayerAdd16BitPCM a (item_id (store (updated_item upd)))])
      @ (if decode_due (store (updated_item upd))
         then [Decode (item_audio (store (updated_item upd))) 24000 24000] else []))"
proof (cases "delta_audio upd")
  case None
  with assms show ?thesis
    by (simp add: on_conversation_updated_def decode_due_def Let_def)
next
  case (Some a)
  with assms show ?thesis
    by (simp add: on_conversation_updated_def decode_due_def Let_def)
qed

lemma decode_due_file: "decode_due (it\<lparr>formatted_file := f\<rparr>) = decode_due it"
  by (simp add: decode_due_def)

lemma decodes_append: "decodes (xs @ ys) = decodes xs + decodes ys"
  by (simp add: decodes_def)

lemma decodes_Nil: "decodes [] = 0"
  by (simp add: decodes_def)

lemma decodes_Decode: "decodes [Decode a r1 r2] = 1"
  by (simp add: decodes_def)

lemma decodes_queue:
  "decodes (case d of None \<Rightarrow> [] | Some a \<Rightarrow> [PlayerAdd16BitPCM a i]) = 0"
  by (simp add: decodes_def split: option.splits)

text \<open>
  C3, as the code has it: when the same update is delivered twice and the collaborators'
  calls return, both deliveries return and the page's item sequence after the second is
  the one after the first (the client's list). An item that is completed with audio is
  decoded once per delivery, each time storing the decoder's answer as the item's file,
  so after the second delivery the file is the second answer; an item that is not
  completed, or has no audio, is not decoded and the item objects stay as they are.
\<close>

theorem redelivery_keeps_sequence:
  "player_add16BitPCM env1 = Inr () \<and> decode env1 = Inr f1
   \<and> player_add16BitPCM env2 = Inr () \<and> decode env2 = Inr f2
   \<and> client_getItems env2 = client_getItems env1 \<longrightarrow>
   (let it = store (updated_item upd);
        r1 = on_conversation_updated env1 upd (st, store);
        r2 = on_conversation_updated env2 upd (after r1)
    in result_of r1 = Inr () \<and> result_of r2 = Inr ()
       \<and> items (fst (after r1)) = client_getItems env1
       \<and> items (fst (after r2)) = items (fst (after r1))
       \<and> (decode_due it \<longrightarrow>
            decodes (calls_of r1) = 1 \<and> decodes (calls_of r2) = 1
            \<and> snd (after r1) = store(updated_item upd := it\<lparr>formatted_file := Some f1\<rparr>)
            \<and> snd (after r2) = store(updated_item upd := it\<lparr>formatted_file := Some f2\<rparr>))
       \<and> (\<not> (decode_due it) \<longrightarrow>
            decodes (calls_of r1) = 0 \<and> decodes (calls_of r2) = 0
            \<and> snd (after r1) = store \<and> snd (after r2) = store))"
proof (intro impI)
  assume a: "player_add16BitPCM env1 = Inr () \<and> decode env1 = Inr f1
   \<and> player_add16BitPCM env2 = Inr () \<and> decode env2 = Inr f2
   \<and> client_getItems env2 = client_getItems env1"
  note e1 = on_conversation_updated_eq [of env1 f1 upd]
  note e2 = on_conversation_updated_eq [of env2 f2 upd]
  from a show "let it = store (updated_item upd);
        r1 = on_conversation_updated env1 upd (st, store);
        r2 = on_conversation_updated env2 upd (after r1)
    in result_of r1 = Inr () \<and> result_of r2 = Inr ()
       \<and> items (fst (after r1)) = client_getItems env1
       \<and> items (fst (after r2)) = items (fst (after r1))
       \<and> (decode_due it \<longrightarrow>
            decodes (calls_of r1) = 1 \<and> decodes (calls_of r2) = 1
            \<and> snd (after r1) = store(updated_item upd := it\<lparr>formatted_file := Some f1\<rparr>)
            \<and> snd (after r2) = store(updated_item upd := it\<lparr>formatted_file := Some f2\<rparr>))
       \<and> (\<not> decode_due it \<longrightarrow>
            decodes (calls_of r1) = 0 \<and> decodes (calls_of r2) = 0
            \<and> snd (after r1) = store \<and> snd (after r2) = store)"
    by (simp add: Let_def e1 e2 result_of_def after_def calls_of_def setItems_def
        decodes_append decodes_queue decodes_Decode decodes_Nil decode_due_file)
qed

text \<open>
  C3 as stated fails: the second delivery of the update for a completed item with audio
  decodes again, and the file the item shows is replaced by the second decode's.
\<close>

theorem redelivery_decodes_again:
  "decodes (calls_of (on_conversation_updated (decoding ''blob:1'') update_0
             (initial_page ''t0'', \<lambda>a. completed_item))) = 1
   \<and> decodes (calls_of (on_conversation_updated (decoding ''blob:2'') update_0
        (after (on_conversation_updated (decoding ''blob:1'') update_0
                  (initial_page ''t0'', \<lambda>a. completed_item))))) = 1
   \<and> shown_items (after (on_conversation_updated (decoding ''blob:1'') update_0
                            (initial_page ''t0'', \<lambda>a. completed_item)))
       = [completed_item\<lparr>formatted_file := Some (WavFile ''blob:1'')\<rparr>]
   \<and> shown_items (after (on_conversation_updated (decoding ''blob:2'') update_0
        (after (on_conversation_updated (decoding ''blob:1'') update_0
                  (initial_page ''t0'', \<lambda>a. completed_item)))))
       = [completed_item\<lparr>formatted_file := Some (WavFile ''blob:2'')\<rparr>]
   \<and> shown_items (after (on_conversation_updated (decoding ''blob:2'') update_0
        (after (on_conversation_updated (decoding ''blob:1'') update_0
                  (initial_page ''t0'', \<lambda>a. completed_item)))))
       \<noteq> shown_items (after (on_conversation_updated (decoding ''blob:1'') update_0
                            (initial_page ''t0'', \<lambda>a. completed_item)))"
  by (simp add: on_conversation_updated_def decoding_def all_return_def update_0_def
      completed_item_def has_audio_def decode_due_def calls_of_def after_def decodes_def shown_items_def
      setItems_def initial_page_def Let_def)

theorem redelivery_keeps_sequence_witness:
  "items (fst (after (on_conversation_updated (decoding ''blob:2'') update_0
        (after (on_conversation_updated (decoding ''blob:1'') update_0
                  (initial_page ''t0'', \<lambda>a. completed_item)))))) = [0]
   \<and> snd (after (on_conversation_updated (decoding ''blob:2'') update_0
        (after (on_conversation_updated (decoding ''blob:1'') update_0
                  (initial_page ''t0'', \<lambda>a. completed_item))))) 0
       = completed_item\<lparr>formatted_file := Some (WavFile ''blob:2'')\<rparr>
   \<and> snd (after (on_conversation_updated (decoding ''blob:2'') update_0
        (after (on_conversation_updated (decoding ''blob:1'') update_0
                  (initial_page ''t0'', \<lambda>a. completed_item\<lparr>status := InProgress\<rparr>))))) 0
       = completed_item\<lparr>status := InProgress\<rparr>"
  using redelivery_keeps_sequence [of "decoding ''blob:1''" "WavFile ''blob:1''"
      "decoding ''blob:2''" "WavFile ''blob:2''" "\<lambda>a. completed_item" update_0 "initial_page ''t0''"]
    redelivery_keeps_sequence [of "decoding ''blob:1''" "WavFile ''blob:1''"
      "decoding ''blob:2''" "WavFile ''blob:2''" "\<lambda>a. completed_item\<lparr>status := InProgress\<rparr>"
      update_0 "initial_page ''t0''"]
  by (simp add: decoding_def all_return_def update_0_def completed_item_def has_audio_def decode_due_def Let_def)

subsection \<open>Disconnecting and connecting\<close>

text \<open>
  C4, as the code has it: whatever the state and whatever the collaborators answer,
  \<open>disconnectConversation\<close> leaves the page disconnected, with an empty event log, no
  items, an empty memory store, no marker and the default coordinates. The three
  teardown calls are issued in order; when all return, the function returns, and the
  first that fails ends the function with its error, the calls after it not issued.
\<close>

theorem disconnect_resets_state:
  "isConnected (after (disconnectConversation env st)) = False
   \<and> realtimeEvents (after (disconnectConversation env st)) = []
   \<and> items (after (disconnectConversation env st)) = []
   \<and> memory_store (after (disconnectConversation env st)) = Map.empty
   \<and> marker (after (disconnectConversation env st)) = None
   \<and> coords (after (disconnectConversation env st)) = Some default_coords
   \<and> (client_disconnect env = Inr () \<and> recorder_end env = Inr () \<and> player_interrupt env = Inr x \<longrightarrow>
        result_of (disconnectConversation env st) = Inr ()
        \<and> calls_of (disconnectConversation env st) = [ClientDisconnect, RecorderEnd, PlayerInterrupt])
   \<and> (client_disconnect env = Inl e \<longrightarrow>
        result_of (disconnectConversation env st) = Inl e
        \<and> calls_of (disconnectConversation env st) = [ClientDisconnect])
   \<and> (client_disconnect env = Inr () \<and> recorder_end env = Inl e \<longrightarrow>
        result_of (disconnectConversation env st) = Inl e
        \<and> calls_of (disconnectConversation env st) = [ClientDisconnect, RecorderEnd])
   \<and> (client_disconnect env = Inr () \<and> recorder_end env = Inr () \<and> player_interrupt env = Inl e \<longrightarrow>
        result_of (disconnectConversation env st) = Inl e
        \<and> calls_of (disconnectConversation env st) = [ClientDisconnect, RecorderEnd, PlayerInterrupt])"
  by (simp add: disconnectConversation_def result_of_def calls_of_def after_def Let_def
      memory_store_def spread_def ignore_result_def split: prod.splits sum.splits)

text \<open>
  C4 as stated fails: when \<open>wavRecorder.end()\<close> fails, the function raises that error
  and the player is never interrupted.
\<close>

theorem disconnect_raises_and_skips:
  "result_of (disconnectConversation recorder_end_fails talking_page) = Inl (Rejected ''not begun'')
   \<and> calls_of (disconnectConversation recorder_end_fails talking_page) = [ClientDisconnect, RecorderEnd]
   \<and> PlayerInterrupt \<notin> set (calls_of (disconnectConversation recorder_end_fails talking_page))"
  by (simp add: disconnectConversation_def recorder_end_fails_def all_return_def result_of_def
      calls_of_def)

theorem disconnect_resets_state_witness:
  "isConnected (after (disconnectConversation recorder_end_fails talking_page)) = False
   \<and> realtimeEvents (after (disconnectConversation recorder_end_fails talking_page)) = []
   \<and> items (after (disconnectConversation recorder_end_fails talking_page)) = []
   \<and> memory_store (after (disconnectConversation recorder_end_fails talking_page)) = Map.empty
   \<and> marker (after (disconnectConversation recorder_end_fails talking_page)) = None
   \<and> result_of (disconnectConversation all_return talking_page) = Inr ()
   \<and> calls_of (disconnectConversation all_return talking_page)
       = [ClientDisconnect, RecorderEnd, PlayerInterrupt]"
  using disconnect_resets_state [of recorder_end_fails talking_page None "Rejected ''not begun''"]
    disconnect_resets_state [of all_return talking_page None "Rejected ''not begun''"]
  by (simp add: recorder_end_fails_def all_return_def)

text \<open>
  C5, as the code has it: \<open>connectConversation\<close> sets \<open>isConnected\<close> before its first
  call and nothing resets it. When acquiring the microphone, opening the output or the
  handshake fails, the function ends with that error right after the failing call:
  no later call is issued, none that would release what was opened before.
\<close>

theorem connect_failure_propagates:
  "isConnected (after (connectConversation env st)) = True
   \<and> (recorder_begin env = Inl e \<longrightarrow>
        result_of (connectConversation env st) = Inl e
        \<and> calls_of (connectConversation env st) = [RecorderBegin])
   \<and> (recorder_begin env = Inr () \<and> player_connect env = Inl e \<longrightarrow>
        result_of (connectConversation env st) = Inl e
        \<and> calls_of (connectConversation env st) = [RecorderBegin, PlayerConnect])
   \<and> (recorder_begin env = Inr () \<and> player_connect env = Inr () \<and> client_connect env = Inl e \<longrightarrow>
        result_of (connectConversation env st) = Inl e
        \<and> calls_of (connectConversation env st) = [RecorderBegin, PlayerConnect, ClientConnect])"
  by (simp add: connectConversation_def result_of_def calls_of_def after_def Let_def
      split: prod.splits sum.splits)

text \<open>
  C5 as stated fails: after a failed handshake the page reports itself connected, and
  the recorder and the player, both opened, have not been closed.
\<close>

theorem failed_handshake_leaves_connected:
  "result_of (connectConversation handshake_fails (initial_page ''t0'')) = Inl (Rejected ''handshake'')
   \<and> isConnected (after (connectConversation handshake_fails (initial_page ''t0''))) = True
   \<and> calls_of (connectConversation handshake_fails (initial_page ''t0''))
       = [RecorderBegin, PlayerConnect, ClientConnect]
   \<and> RecorderEnd \<notin> set (calls_of (connectConversation handshake_fails (initial_page ''t0'')))"
  by (simp add: connectConversation_def handshake_fails_def all_return_def result_of_def
      calls_of_def after_def)

theorem connect_failure_propagates_witness:
  "isConnected (initial_page ''t0'') = False
   \<and> isConnected (after (connectConversation handshake_fails (initial_page ''t0''))) = True
   \<and> result_of (connectConversation handshake_fails (initial_page ''t0'')) = Inl (Rejected ''handshake'')
   \<and> calls_of (connectConversation handshake_fails (initial_page ''t0''))
       = [RecorderBegin, PlayerConnect, ClientConnect]"
  using connect_failure_propagates [of handshake_fails "initial_page ''t0''" "Rejected ''handshake''"]
  by (simp add: handshake_fails_def all_return_def initial_page_def)

subsection \<open>Push to talk\<close>

lemma connectConversation_flags:
  "isConnected (after (connectConversation env st)) = True"
  "canPushToTalk (after (connectConversation env st)) = canPushToTalk st"
  by (simp_all add: connectConversation_def after_def Let_def split: prod.splits)

lemma disconnectConversation_flags:
  "isConnected (after (disconnectConversation env st)) = False"
  by (simp add: disconnectConversation_def after_def Let_def split: prod.splits)

lemma changeTurnEndType_cases:
  obtains e cs where "changeTurnEndType env v st = (Inl e, st, cs)"
  | cs where "changeTurnEndType env v st = (Inr (), st\<lparr>canPushToTalk := (v = ''none'')\<rparr>, cs)"
proof -
  define steps where "steps =
    (if v = ''none'' \<and> recorder_getStatus env = ''recording''
     then [(RecorderPause, recorder_pause env)] else [])
    @ [(ClientUpdateSession (if v = ''none'' then None else Some ''server_vad''),
        client_updateSession env)]
    @ (if v = ''server_vad'' \<and> client_isConnected env
       then [(RecorderRecord, recorder_record env)] else [])"
  obtain res cs where rc: "run_calls steps = (res, cs)"
    by (cases "run_calls steps")
  have eq: "changeTurnEndType env v st =
      (case res of
         Inl e \<Rightarrow> (Inl e, st, cs)
       | Inr u \<Rightarrow> (Inr (), st\<lparr>canPushToTalk := (v = ''none'')\<rparr>, cs))"
    unfolding changeTurnEndType_def steps_def [symmetric] rc by simp
  show thesis
  proof (cases res)
    case (Inl e)
    with eq that(1) show thesis by simp
  next
    case (Inr u)
    with eq that(2) show thesis by simp
  qed
qed

lemma changeTurnEndType_isConnected:
  "isConnected (after (changeTurnEndType env v st)) = isConnected st"
  by (rule changeTurnEndType_cases [of env v st]) (simp_all add: after_def)

lemma changeTurnEndType_canPushToTalk:
  "result_of (changeTurnEndType env v st) = Inr () \<Longrightarrow>
     canPushToTalk (after (changeTurnEndType env v st)) = (v = ''none'')"
  by (rule changeTurnEndType_cases [of env v st]) (simp_all add: after_def result_of_def)

lemma startRecording_sets_isRecording:
  "isRecording (after (startRecording env st)) = True"
  by (simp add: startRecording_def after_def Let_def split: sum.splits prod.splits)

lemma startRecording_records:
  "player_interrupt env = Inr x \<and> client_cancelResponse env = Inr () \<Longrightarrow>
     RecorderRecord \<in> set (calls_of (startRecording env st))"
  by (auto simp: startRecording_def calls_of_def cancel_step_def Let_def
      split: sum.splits prod.splits option.splits)

text \<open>
  C7, as the code has it: the guard is the template's, and it is on the page's two flags.
  While \<open>isConnected\<close> or \<open>canPushToTalk\<close> is unset there is no button to press, so
  \<open>startRecording\<close> does not run; while both are set a press runs it. The flags are not
  the session's state: \<open>connectConversation\<close> sets \<open>isConnected\<close> whatever becomes of its
  calls and leaves \<open>canPushToTalk\<close> alone, so after a connect that failed the button is
  there if it was enabled before; only \<open>disconnectConversation\<close> takes it away again.
  \<open>changeTurnEndType\<close> leaves \<open>isConnected\<close> alone and, when it returns, has set
  \<open>canPushToTalk\<close> to whether the switch was to manual. \<open>startRecording\<close> itself tests
  nothing: it sets \<open>isRecording\<close>, and once the interruption has returned it starts the
  capture stream.
\<close>

theorem push_to_talk_gated_by_flags:
  "(\<not> (isConnected st \<and> canPushToTalk st) \<longrightarrow> push_to_talk_mousedown env st = None)
   \<and> (isConnected st \<and> canPushToTalk st \<longrightarrow>
        push_to_talk_mousedown env st = Some (startRecording env st))
   \<and> isConnected (after (connectConversation env1 st)) = True
   \<and> (canPushToTalk st \<longrightarrow>
        push_to_talk_mousedown env (after (connectConversation env1 st))
          = Some (startRecording env (after (connectConversation env1 st))))
   \<and> push_to_talk_mousedown env (after (disconnectConversation env1 st)) = None
   \<and> isConnected (after (changeTurnEndType env1 v st)) = isConnected st
   \<and> (result_of (changeTurnEndType env1 v st) = Inr () \<longrightarrow>
        canPushToTalk (after (changeTurnEndType env1 v st)) = (v = ''none''))
   \<and> isRecording (after (startRecording env st)) = True
   \<and> (player_interrupt env = Inr x \<and> client_cancelResponse env = Inr () \<longrightarrow>
        RecorderRecord \<in> set (calls_of (startRecording env st)))"
  using connectConversation_flags [of env1 st] disconnectConversation_flags [of env1 st]
    changeTurnEndType_isConnected [of env1 v st] changeTurnEndType_canPushToTalk [of env1 v st]
    startRecording_sets_isRecording [of env st] startRecording_records [of env x st]
  by (simp add: push_to_talk_mousedown_def push_to_talk_offered_def)

text \<open>
  C7 as stated fails: a click on the connect button of the starting page whose handshake
  fails leaves no session, yet the push-to-talk button is there, and a press on it sets
  \<open>isRecording\<close> and starts the capture stream.
\<close>

theorem push_to_talk_after_failed_handshake:
  "result_of (connect_button_click handshake_fails (initial_page ''t0''))
     = Inl (Rejected ''handshake'')
   \<and> push_to_talk_mousedown all_return
        (after (connect_button_click handshake_fails (initial_page ''t0'')))
     = Some (startRecording all_return
               (after (connect_button_click handshake_fails (initial_page ''t0''))))
   \<and> isRecording (after (connect_button_click handshake_fails (initial_page ''t0''))) = False
   \<and> isRecording (after (startRecording all_return
        (after (connect_button_click handshake_fails (initial_page ''t0''))))) = True
   \<and> calls_of (startRecording all_return
        (after (connect_button_click handshake_fails (initial_page ''t0''))))
     = [PlayerInterrupt, RecorderRecord]"
  by (simp add: connect_button_click_def connectConversation_def handshake_fails_def
      all_return_def initial_page_def result_of_def after_def calls_of_def
      push_to_talk_mousedown_def push_to_talk_offered_def startRecording_def
      cancel_step_def playing_track_def)

theorem push_to_talk_gated_by_flags_witness:
  "push_to_talk_mousedown all_return (initial_page ''t0'') = None
   \<and> push_to_talk_mousedown all_return
        (after (changeTurnEndType all_return ''server_vad'' talking_page)) = None
   \<and> push_to_talk_mousedown all_return talking_page = Some (startRecording all_return talking_page)
   \<and> push_to_talk_mousedown all_return
        (after (connectConversation handshake_fails (initial_page ''t0'')))
       = Some (startRecording all_return
                 (after (connectConversation handshake_fails (initial_page ''t0''))))
   \<and> push_to_talk_mousedown all_return (after (disconnectConversation all_return talking_page))
       = None
   \<and> RecorderRecord \<in> set (calls_of (startRecording all_return talking_page))"
proof -
  have vad: "result_of (changeTurnEndType all_return ''server_vad'' talking_page) = Inr ()"
    by (simp add: changeTurnEndType_def all_return_def result_of_def)
  have flags: "\<not> isConnected (initial_page ''t0'')" "canPushToTalk (initial_page ''t0'')"
    "isConnected talking_page" "canPushToTalk talking_page"
    by (simp_all add: initial_page_def talking_page_def)
  have ret: "player_interrupt all_return = Inr None" "client_cancelResponse all_return = Inr ()"
    by (simp_all add: all_return_def)
  note t1 = push_to_talk_gated_by_flags
    [of "initial_page ''t0''" all_return handshake_fails "''server_vad''" None]
  note t2 = push_to_talk_gated_by_flags
    [of talking_page all_return all_return "''server_vad''" None]
  note t3 = push_to_talk_gated_by_flags
    [of "after (changeTurnEndType all_return ''server_vad'' talking_page)" all_return
        all_return "''server_vad''" None]
  from t2 vad flags have off: "\<not> canPushToTalk (after (changeTurnEndType all_return ''server_vad'' talking_page))"
    by simp
  from t1 t2 t3 off flags ret show ?thesis
    by simp
qed

subsection \<open>The render loop\<close>

lemma frames_requested_draw_canvas: "frames_requested (draw_canvas cid cv vals color) = 0"
  by (simp add: frames_requested_def draw_canvas_def Let_def split: option.splits)

lemma frames_requested_append:
  "frames_requested (xs @ ys) = frames_requested xs + frames_requested ys"
  by (simp add: frames_requested_def)

lemma frames_requested_Cons:
  "frames_requested (c # cs) = (if c = RequestAnimationFrame then 1 else 0) + frames_requested cs"
  by (simp add: frames_requested_def)

lemma frames_requested_Nil: "frames_requested [] = 0"
  by (simp add: frames_requested_def)

lemma render_requests_frame: "RequestAnimationFrame \<in> set (render env st)"
  by (cases "isLoaded st") (simp add: render_def)

lemma render_requests_one_frame: "frames_requested (render env st) = 1"
  by (cases "isLoaded st")
    (simp add: render_def frames_requested_append frames_requested_draw_canvas
      frames_requested_Cons frames_requested_Nil)

text \<open>
  C8 does not hold of the code: after \<open>onUnmounted\<close> has cleared the flag, every run of
  \<open>render\<close> still requests the next animation frame, so over \<open>n\<close> frames the loop issues
  \<open>n\<close> requests. The test \<^verbatim>\<open>if (isLoaded)\<close> is on the ref, which is truthy whatever
  it holds.
\<close>

theorem render_loop_survives_unmount:
  "frames_requested (render_loop n env (onUnmounted st)) = n"
proof (induction n)
  case 0
  show ?case by (simp add: frames_requested_def)
next
  case (Suc n)
  then show ?case
    by (simp add: Let_def render_requests_frame render_requests_one_frame frames_requested_append)
qed

theorem render_loop_survives_unmount_witness:
  "ref_value (isLoaded (onUnmounted (onMounted all_return (initial_page ''t0'')))) = False
   \<and> frames_requested
        (render_loop 3 no_canvas (onUnmounted (onMounted all_return (initial_page ''t0'')))) = 3"
  using render_loop_survives_unmount [of 3 no_canvas "onMounted all_return (initial_page ''t0'')"]
  by (simp add: onUnmounted_def)

subsection \<open>Tools\<close>

text \<open>
  C10: for every state, key and value, \<open>set_memory\<close> resolves with \<^verbatim>\<open>{ ok: true }\<close>,
  the memory store then maps the key to the value, every other key reads as before, and
  nothing else of the page's state changes.
\<close>

theorem set_memory_merges:
  "fst (set_memory key v st) = Inr (JObj [(''ok'', JBool True)])
   \<and> memory_store (snd (set_memory key v st)) key = Some v
   \<and> (\<forall>k. k \<noteq> key \<longrightarrow> memory_store (snd (set_memory key v st)) k = memory_store st k)
   \<and> (snd (set_memory key v st))\<lparr>memoryKv := memoryKv st\<rparr> = st"
  by (simp add: set_memory_def setMemoryKv_def memory_store_def spread_def)

theorem set_memory_merges_witness:
  "memory_store (snd (set_memory ''city'' (JStr ''NYC'') talking_page)) ''city'' = Some (JStr ''NYC'')
   \<and> memory_store (snd (set_memory ''name'' (JStr ''Ann'') talking_page)) ''name'' = Some (JStr ''Ann'')
   \<and> memory_store (snd (set_memory ''name'' (JStr ''Ann'') talking_page)) ''city'' = Some (JStr ''SF'')
   \<and> memory_store (snd (set_memory ''name'' (JStr ''Ann'') (initial_page ''t0''))) ''name'' = Some (JStr ''Ann'')"
  using set_memory_merges [of "''city''" "JStr ''NYC''" talking_page]
    set_memory_merges [of "''name''" "JStr ''Ann''" talking_page]
    set_memory_merges [of "''name''" "JStr ''Ann''" "initial_page ''t0''"]
  by (simp add: memory_store_def talking_page_def spread_def)

lemma place_reads:
  "(m ++ place lat lng location) ''lat'' = Some lat"
  "(m ++ place lat lng location) ''lng'' = Some lng"
  "(m ++ place lat lng location) ''location'' = Some location"
  "(m ++ place lat lng location) ''temperature'' = m ''temperature''"
  "(m ++ place lat lng location) ''wind_speed'' = m ''wind_speed''"
  by (simp_all add: place_def map_add_def)

lemma get_weather_failed_marker:
  assumes "result_of (get_weather env lat lng location st) = Inl e"
  shows "marker (after (get_weather env lat lng location st))
           = Some (spread (marker st) ++ place lat lng location)"
  using assms
  by (auto simp: get_weather_def result_of_def after_def Let_def setMarker_def setCoords_def
      split: sum.splits prod.splits)

text \<open>
  C9, as the code has it: when the lookup fails (the request or the reading of its body
  rejects, or the answer lacks the fields read from it), \<open>get_weather\<close> itself rejects
  with that error. The marker is then the one set before the lookup: \<open>lat\<close>, \<open>lng\<close> and
  \<open>location\<close> are the arguments, and \<open>temperature\<close> and \<open>wind_speed\<close> read as they did
  before the call.
\<close>

theorem get_weather_failure_propagates:
  "(fetch env = Inl e
      \<or> (fetch env = Inr () \<and> response_json env = Inl e)
      \<or> (fetch env = Inr () \<and> response_json env = Inr json \<and> weather_fields json = Inl e) \<longrightarrow>
      result_of (get_weather env lat lng location st) = Inl e)
   \<and> (result_of (get_weather env lat lng location st) = Inl e \<longrightarrow>
        marker (after (get_weather env lat lng location st))
          = Some (spread (marker st) ++ place lat lng location)
        \<and> spread (marker (after (get_weather env lat lng location st))) ''lat'' = Some lat
        \<and> spread (marker (after (get_weather env lat lng location st))) ''lng'' = Some lng
        \<and> spread (marker (after (get_weather env lat lng location st))) ''location'' = Some location
        \<and> spread (marker (after (get_weather env lat lng location st))) ''temperature''
            = spread (marker st) ''temperature''
        \<and> spread (marker (after (get_weather env lat lng location st))) ''wind_speed''
            = spread (marker st) ''wind_speed'')"
proof (intro conjI impI)
  assume "fetch env = Inl e
      \<or> (fetch env = Inr () \<and> response_json env = Inl e)
      \<or> (fetch env = Inr () \<and> response_json env = Inr json \<and> weather_fields json = Inl e)"
  then show "result_of (get_weather env lat lng location st) = Inl e"
    by (auto simp: get_weather_def result_of_def Let_def)
next
  assume f: "result_of (get_weather env lat lng location st) = Inl e"
  note m = get_weather_failed_marker [OF f]
  show "marker (after (get_weather env lat lng location st))
          = Some (spread (marker st) ++ place lat lng location)"
    by (rule m)
  show "spread (marker (after (get_weather env lat lng location st))) ''lat'' = Some lat"
    "spread (marker (after (get_weather env lat lng location st))) ''lng'' = Some lng"
    "spread (marker (after (get_weather env lat lng location st))) ''location'' = Some location"
    "spread (marker (after (get_weather env lat lng location st))) ''temperature''
       = spread (marker st) ''temperature''"
    "spread (marker (after (get_weather env lat lng location st))) ''wind_speed''
       = spread (marker st) ''wind_speed''"
    unfolding m by (simp_all add: spread_def place_reads)
qed

text \<open>
  C9 as stated fails: the handler throws, both when the request fails and when the
  answer is an error document.
\<close>

theorem get_weather_rejects:
  "result_of (get_weather lookup_fails (JNum 10) (JNum 20) (JStr ''X'') (initial_page ''t0''))
     = Inl (Rejected ''network'')
   \<and> result_of (get_weather lookup_answers_error (JNum 10) (JNum 20) (JStr ''X'') (initial_page ''t0''))
     = Inl TypeError"
  by (simp add: get_weather_def lookup_fails_def lookup_answers_error_def all_return_def
      result_of_def weather_fields_def js_get2_def)

theorem get_weather_failure_propagates_witness:
  "spread (marker (after (get_weather lookup_fails (JNum 10) (JNum 20) (JStr ''X'')
                            (initial_page ''t0'')))) ''lat'' = Some (JNum 10)
   \<and> spread (marker (after (get_weather lookup_fails (JNum 10) (JNum 20) (JStr ''X'')
                            (initial_page ''t0'')))) ''lng'' = Some (JNum 20)
   \<and> spread (marker (after (get_weather lookup_fails (JNum 10) (JNum 20) (JStr ''X'')
                            (initial_page ''t0'')))) ''location'' = Some (JStr ''X'')
   \<and> spread (marker (after (get_weather lookup_fails (JNum 10) (JNum 20) (JStr ''X'')
                            (initial_page ''t0'')))) ''temperature'' = None
   \<and> spread (marker (after (get_weather lookup_fails (JNum 10) (JNum 20) (JStr ''X'')
                            (initial_page ''t0'')))) ''wind_speed'' = None
   \<and> result_of (get_weather lookup_fails (JNum 10) (JNum 20) (JStr ''X'') (initial_page ''t0''))
       = Inl (Rejected ''network'')"
proof -
  let ?r = "get_weather lookup_fails (JNum 10) (JNum 20) (JStr ''X'') (initial_page ''t0'')"
  note t = get_weather_failure_propagates [of lookup_fails "Rejected ''network''" JNull
      "JNum 10" "JNum 20" "JStr ''X''" "initial_page ''t0''"]
  have f: "fetch lookup_fails = Inl (Rejected ''network'')"
    by (simp add: lookup_fails_def)
  from t f have r: "result_of ?r = Inl (Rejected ''network'')"
    by (elim conjE) (erule mp, rule disjI1)
  from t r have m: "marker (after ?r) = Some (spread (marker (initial_page ''t0'')) ++ place (JNum 10) (JNum 20) (JStr ''X''))"
    by (elim conjE) (erule (1) mp [THEN conjunct1])
  show ?thesis
    unfolding m r by (simp add: spread_def place_def initial_page_def)
qed

end
